theory Spec2Isabelle
  imports Complex_Main
begin

section \<open>Python values\<close>

text \<open>
  The plugin handles untyped Python data: the configuration mapping, the event payload,
  the button dictionaries and the JSON bodies returned by \<open>resp.json()\<close>. They are
  modelled by one datatype of JSON-like values. A \<open>str\<close> is a \<open>string\<close> holding the
  UTF-8 bytes of the text (the encoding is injective, so equality and emptiness are those of
  the Python string). A \<open>dict\<close> with string keys is an association list read with
  \<open>map_of\<close>. A \<open>float\<close> is a real number: the source only tests numbers for truthiness
  and for equality with \<open>0\<close>.
\<close>

datatype pyval =
    PNone
  | PBool bool
  | PInt int
  | PFloat real
  | PStr string
  | PList "pyval list"
  | PDict "(string \<times> pyval) list"

type_synonym dict = "(string \<times> pyval) list"

text \<open>Truthiness, as tested by \<open>if x\<close>, \<open>not x\<close>, \<open>x and y\<close>, \<open>x or y\<close>.\<close>

fun truthy :: "pyval \<Rightarrow> bool" where
  "truthy PNone = False"
| "truthy (PBool b) = b"
| "truthy (PInt i) = (i \<noteq> 0)"
| "truthy (PFloat r) = (r \<noteq> 0)"
| "truthy (PStr s) = (s \<noteq> [])"
| "truthy (PList xs) = (xs \<noteq> [])"
| "truthy (PDict d) = (d \<noteq> [])"

text \<open>\<open>x or y\<close>\<close>

definition py_or :: "pyval \<Rightarrow> pyval \<Rightarrow> pyval" where
  "py_or x y = (if truthy x then x else y)"

text \<open>\<open>x == 0\<close>: numbers compare by value across \<open>bool\<close>, \<open>int\<close> and \<open>float\<close>.\<close>

fun eq_int :: "pyval \<Rightarrow> int \<Rightarrow> bool" where
  "eq_int (PInt i) n = (i = n)"
| "eq_int (PBool b) n = ((if b then 1 else 0) = n)"
| "eq_int (PFloat r) n = (r = of_int n)"
| "eq_int _ n = False"

text \<open>\<open>x == "literal"\<close>: only a \<open>str\<close> equals a \<open>str\<close>.\<close>

fun eq_str :: "pyval \<Rightarrow> string \<Rightarrow> bool" where
  "eq_str (PStr s) t = (s = t)"
| "eq_str _ t = False"

text \<open>\<open>d.get(k)\<close>: \<open>None\<close> for a missing key.\<close>

definition dict_get :: "dict \<Rightarrow> string \<Rightarrow> pyval" where
  "dict_get d k = (case map_of d k of None \<Rightarrow> PNone | Some v \<Rightarrow> v)"

text \<open>Exceptions: those raised by the plugin's own code, and those raised by \<open>requests\<close>.\<close>

datatype exn =
    KeyError string
  | AttributeError string
  | RequestError string

text \<open>\<open>d[k]\<close>: raises \<open>KeyError\<close> for a missing key.\<close>

definition getitem :: "dict \<Rightarrow> string \<Rightarrow> exn + pyval" where
  "getitem d k = (case map_of d k of None \<Rightarrow> Inl (KeyError k) | Some v \<Rightarrow> Inr v)"

section \<open>The outside world\<close>

text \<open>
  A header value is a literal or the f-string \<open>f"Bearer {token}"\<close>, kept with the value
  it formats.
\<close>

datatype header_value = Lit string | Bearer pyval

text \<open>
  One call of \<open>session.post\<close>. \<open>pooled\<close> tells whether the call went through the
  long-lived \<open>self._session\<close> or through a fresh \<open>requests.Session()\<close>.
\<close>

record request =
  pooled :: bool
  url :: string
  headers :: "(string \<times> header_value) list"
  json :: pyval
  timeout :: nat

text \<open>
  What \<open>session.post(...)\<close> followed by \<open>resp.json()\<close> gives: the decoded body, or an
  exception (connection failure, timeout, exhausted retries, a body that is not JSON).
\<close>

datatype reply = Raises string | Json pyval

text \<open>
  The environment: \<open>clock n\<close> is the value of the \<open>n\<close>-th evaluation of
  \<open>time.time()\<close> (counted from 0), and \<open>respond h r\<close> is the outcome of the call
  \<open>r\<close> when the calls \<open>h\<close> were made before it.
\<close>

record env =
  clock :: "nat \<Rightarrow> real"
  respond :: "request list \<Rightarrow> request \<Rightarrow> reply"

section \<open>The plugin object\<close>

datatype level = Debug | Info | Warn | Error

text \<open>The log lines of the source, one constructor per message, with the values it formats.\<close>

datatype logmsg =
    Instantiated
  | CredentialsMissing
  | TokenFailed pyval
  | TokenException exn
  | MessageSent pyval
  | MessageFailed pyval
  | MessageException exn
  | Stopped
  | MenuSent pyval

text \<open>
  The fields of \<open>FeishuPlugin\<close> (\<open>session\<close> is \<open>True\<close> when \<open>self._session\<close> holds a
  Session object), followed by the trace of the effects: the network calls in order, the log
  lines in order, the number of \<open>Session.close()\<close> calls and the number of
  \<open>time.time()\<close> evaluations.
\<close>

record plugin =
  plugin_config :: dict
  session :: bool
  access_token :: pyval
  token_expiry :: real
  sent :: "request list"
  logged :: "(level \<times> logmsg) list"
  closes :: nat
  ticks :: nat

definition log_line :: "level \<Rightarrow> logmsg \<Rightarrow> plugin \<Rightarrow> plugin" where
  "log_line l m s = s\<lparr>logged := logged s @ [(l, m)]\<rparr>"

text \<open>\<open>time.time()\<close>\<close>

definition time_time :: "env \<Rightarrow> plugin \<Rightarrow> real \<times> plugin" where
  "time_time e s = (clock e (ticks s), s\<lparr>ticks := Suc (ticks s)\<rparr>)"

text \<open>\<open>session.post(...)\<close> and \<open>resp.json()\<close>\<close>

definition post :: "env \<Rightarrow> request \<Rightarrow> plugin \<Rightarrow> reply \<times> plugin" where
  "post e r s = (respond e (sent s) r, s\<lparr>sent := sent s @ [r]\<rparr>)"

text \<open>The pre-filled class attribute \<open>plugin_config\<close>.\<close>

definition default_config :: dict where
  "default_config =
     [(''enabled'', PBool True),
      (''feishu_app_id'', PStr ''cli_a90f0e54aab05bde''),
      (''feishu_app_secret'', PStr ''FhMr2lnHwj16NBlLaGXrzfSkeUspovsR''),
      (''use_long_connection'', PBool True)]"

text \<open>\<open>__init__\<close>\<close>

definition init :: "dict \<Rightarrow> plugin" where
  "init cfg =
     \<lparr>plugin_config = cfg, session = False, access_token = PNone, token_expiry = 0,
      sent = [], logged = [(Debug, Instantiated)], closes = 0, ticks = 0\<rparr>"

text \<open>\<open>_init_session\<close>: no network request.\<close>

definition init_session :: "plugin \<Rightarrow> plugin" where
  "init_session s = s\<lparr>session := True\<rparr>"

section \<open>Credential manager: \<open>_get_access_token\<close>\<close>

definition token_url :: string where
  "token_url = ''https://open.feishu.cn/open-apis/auth/v3/app_access_token/internal''"

definition token_request :: "plugin \<Rightarrow> request" where
  "token_request s =
     \<lparr>pooled = session s, url = token_url, headers = [],
      json = PDict [(''app_id'', dict_get (plugin_config s) ''feishu_app_id''),
                    (''app_secret'', dict_get (plugin_config s) ''feishu_app_secret'')],
      timeout = 10\<rparr>"

text \<open>
  The test of line 70, \<open>self._access_token and time.time() < self._token_expiry\<close>: the
  clock is read only when the token is truthy.
\<close>

definition cache_check :: "env \<Rightarrow> plugin \<Rightarrow> bool \<times> plugin" where
  "cache_check e s =
     (if truthy (access_token s)
      then (let (now, s1) = time_time e s in (now < token_expiry s1, s1))
      else (False, s))"

text \<open>
  The body of the \<open>try\<close> after the call, lines 83 to 88. \<open>data.get\<close> on a value that is
  not a dict and \<open>data["app_access_token"]\<close> on a dict without the key raise inside the
  \<open>try\<close> and are caught by \<open>except Exception\<close>, line 89.
\<close>

definition token_reply :: "env \<Rightarrow> reply \<Rightarrow> plugin \<Rightarrow> pyval \<times> plugin" where
  "token_reply e r s =
     (case r of
        Raises x \<Rightarrow> (PNone, log_line Error (TokenException (RequestError x)) s)
      | Json data \<Rightarrow>
          (case data of
             PDict d \<Rightarrow>
               if eq_int (dict_get d ''code'') 0
               then (case getitem d ''app_access_token'' of
                       Inl x \<Rightarrow> (PNone, log_line Error (TokenException x) s)
                     | Inr tok \<Rightarrow>
                         (let s1 = s\<lparr>access_token := tok\<rparr>;
                              (now, s2) = time_time e s1;
                              s3 = s2\<lparr>token_expiry := now + 5400\<rparr>
                          in (access_token s3, s3)))
               else (PNone, log_line Error (TokenFailed data) s)
           | _ \<Rightarrow> (PNone, log_line Error (TokenException (AttributeError ''get'')) s)))"

definition get_access_token :: "env \<Rightarrow> plugin \<Rightarrow> pyval \<times> plugin" where
  "get_access_token e s =
     (let (hit, s1) = cache_check e s in
      if hit then (access_token s1, s1)
      else
        (let app_id = dict_get (plugin_config s1) ''feishu_app_id'';
             app_secret = dict_get (plugin_config s1) ''feishu_app_secret''
         in if \<not> truthy app_id \<or> \<not> truthy app_secret
            then (PNone, log_line Warn CredentialsMissing s1)
            else (let (r, s2) = post e (token_request s1) s1 in token_reply e r s2)))"

section \<open>Message builder and delivery pipeline: \<open>post_message\<close>\<close>

text \<open>The dictionary appended for one button, lines 111 to 116, its items in source order.\<close>

definition button_element :: "dict \<Rightarrow> exn + pyval" where
  "button_element btn =
     (case getitem btn ''text'' of
        Inl x \<Rightarrow> Inl x
      | Inr label \<Rightarrow>
          (case getitem btn ''callback_data'' of
             Inl x \<Rightarrow> Inl x
           | Inr cb \<Rightarrow>
               Inr (PDict
                 [(''tag'', PStr ''button''),
                  (''text'', PDict [(''tag'', PStr ''plain_text''), (''content'', label)]),
                  (''type'', if truthy (dict_get btn ''primary'')
                             then PStr ''primary'' else PStr ''default''),
                  (''value'', PDict [(''type'', PStr ''callback''), (''data'', cb)])])))"

text \<open>The inner loop, \<open>for btn in row\<close>, with the list \<open>actions\<close> built so far.\<close>

fun row_actions :: "dict list \<Rightarrow> pyval list \<Rightarrow> exn + pyval list" where
  "row_actions [] actions = Inr actions"
| "row_actions (btn # row) actions =
     (case button_element btn of
        Inl x \<Rightarrow> Inl x
      | Inr a \<Rightarrow> row_actions row (actions @ [a]))"

text \<open>The outer loop, \<open>for row in buttons\<close>, with \<open>card["elements"]\<close> built so far.\<close>

fun add_rows :: "dict list list \<Rightarrow> pyval list \<Rightarrow> exn + pyval list" where
  "add_rows [] elements = Inr elements"
| "add_rows (row # rows) elements =
     (case row_actions row [] of
        Inl x \<Rightarrow> Inl x
      | Inr actions \<Rightarrow>
          add_rows rows
            (elements @ [PDict [(''tag'', PStr ''action''), (''actions'', PList actions)]]))"

definition body_block :: "pyval \<Rightarrow> pyval" where
  "body_block text =
     PDict [(''tag'', PStr ''div''),
            (''text'', PDict [(''tag'', PStr ''lark_md''),
                              (''content'', py_or text (PStr '' ''))])]"

definition card_of :: "pyval \<Rightarrow> pyval list \<Rightarrow> pyval" where
  "card_of title elements =
     PDict [(''config'', PDict [(''wide_screen_mode'', PBool True)]),
            (''header'', PDict [(''title'', PDict [(''tag'', PStr ''plain_text''),
                                                   (''content'', title)]),
                                (''template'', PStr ''blue'')]),
            (''elements'', PList elements)]"

text \<open>
  Lines 101 to 117: the card, then \<open>if buttons:\<close> (neither \<open>None\<close> nor an empty list)
  the action blocks. This part of \<open>post_message\<close> is outside every \<open>try\<close>.
\<close>

definition build_card :: "pyval \<Rightarrow> pyval \<Rightarrow> dict list list option \<Rightarrow> exn + pyval" where
  "build_card title text buttons =
     (case (case buttons of
              None \<Rightarrow> Inr [body_block text]
            | Some rows \<Rightarrow> add_rows rows [body_block text]) of
        Inl x \<Rightarrow> Inl x
      | Inr elements \<Rightarrow> Inr (card_of title elements))"

definition message_url :: string where
  "message_url = ''https://open.feishu.cn/open-apis/im/v1/messages?receive_id_type=chat_id''"

definition message_request :: "plugin \<Rightarrow> pyval \<Rightarrow> pyval \<Rightarrow> pyval \<Rightarrow> request" where
  "message_request s token channel crd =
     \<lparr>pooled = session s, url = message_url,
      headers = [(''Authorization'', Bearer token),
                 (''Content-Type'', Lit ''application/json'')],
      json = PDict [(''receive_id'', channel),
                    (''msg_type'', PStr ''interactive''),
                    (''content'', crd)],
      timeout = 15\<rparr>"

text \<open>
  The body of the \<open>try\<close> after the call, lines 131 to 135, with the \<open>except\<close> of line
  136 and the final \<open>return False\<close>.
\<close>

definition message_reply :: "reply \<Rightarrow> pyval \<Rightarrow> plugin \<Rightarrow> bool \<times> plugin" where
  "message_reply r channel s =
     (case r of
        Raises x \<Rightarrow> (False, log_line Error (MessageException (RequestError x)) s)
      | Json result \<Rightarrow>
          (case result of
             PDict d \<Rightarrow>
               if eq_int (dict_get d ''code'') 0
               then (True, log_line Info (MessageSent channel) s)
               else (False, log_line Error (MessageFailed result) s)
           | _ \<Rightarrow> (False, log_line Error (MessageException (AttributeError ''get'')) s)))"

text \<open>
  \<open>post_message\<close>: \<open>Inr b\<close> when it returns \<open>b\<close>, \<open>Inl x\<close> when the exception \<open>x\<close>
  leaves it.
\<close>

definition post_message ::
  "env \<Rightarrow> plugin \<Rightarrow> pyval \<Rightarrow> pyval \<Rightarrow> pyval \<Rightarrow> dict list list option \<Rightarrow> (exn + bool) \<times> plugin"
where
  "post_message e s channel title text buttons =
     (let (token, s1) = get_access_token e s in
      if \<not> truthy token then (Inr False, s1)
      else
        (case build_card title text buttons of
           Inl x \<Rightarrow> (Inl x, s1)
         | Inr crd \<Rightarrow>
             (let (r, s2) = post e (message_request s1 token channel crd) s1;
                  (b, s3) = message_reply r channel s2
              in (Inr b, s3))))"

section \<open>Lifecycle: \<open>stop\<close>\<close>

definition stop :: "plugin \<Rightarrow> plugin" where
  "stop s =
     (let s1 = (if session s then s\<lparr>closes := Suc (closes s), session := False\<rparr> else s);
          s2 = s1\<lparr>access_token := PNone\<rparr>
      in log_line Info Stopped s2)"

section \<open>Command dispatcher: \<open>_send_main_menu\<close> and \<open>handle_command\<close>\<close>

definition menu_title :: string where
  "menu_title = [CHR 0xF0, CHR 0x9F, CHR 0xA4, CHR 0x96] @ '' MoviePilot '' @
     [CHR 0xE9, CHR 0xA3, CHR 0x9E, CHR 0xE4, CHR 0xB9, CHR 0xA6,
      CHR 0xE5, CHR 0x8A, CHR 0xA9, CHR 0xE6, CHR 0x89, CHR 0x8B]"

definition menu_text :: string where
  "menu_text =
     [CHR 0xE7, CHR 0x82, CHR 0xB9, CHR 0xE5, CHR 0x87, CHR 0xBB, CHR 0xE4, CHR 0xB8, CHR 0x8B,
      CHR 0xE6, CHR 0x96, CHR 0xB9, CHR 0xE6, CHR 0x8C, CHR 0x89, CHR 0xE9, CHR 0x92, CHR 0xAE,
      CHR 0xE5, CHR 0xBC, CHR 0x80, CHR 0xE5, CHR 0xA7, CHR 0x8B, CHR 0xE6, CHR 0x93, CHR 0x8D,
      CHR 0xE4, CHR 0xBD, CHR 0x9C, CHR 0xEF, CHR 0xBC, CHR 0x9A]"

definition label_media :: string where
  "label_media = [CHR 0xF0, CHR 0x9F, CHR 0x8E, CHR 0xAC] @ '' '' @
     [CHR 0xE5, CHR 0xAA, CHR 0x92, CHR 0xE4, CHR 0xBD, CHR 0x93, CHR 0xE5, CHR 0xBA, CHR 0x93]"

definition label_search :: string where
  "label_search = [CHR 0xF0, CHR 0x9F, CHR 0x94, CHR 0x8D] @ '' '' @
     [CHR 0xE6, CHR 0x90, CHR 0x9C, CHR 0xE7, CHR 0xB4, CHR 0xA2]"

definition label_settings :: string where
  "label_settings = [CHR 0xE2, CHR 0x9A, CHR 0x99, CHR 0xEF, CHR 0xB8, CHR 0x8F] @ '' '' @
     [CHR 0xE8, CHR 0xAE, CHR 0xBE, CHR 0xE7, CHR 0xBD, CHR 0xAE]"

definition menu_buttons :: "dict list list" where
  "menu_buttons =
     [[[(''text'', PStr label_media), (''callback_data'', PStr ''media''),
        (''primary'', PBool True)],
       [(''text'', PStr label_search), (''callback_data'', PStr ''search'')]],
      [[(''text'', PStr label_settings), (''callback_data'', PStr ''settings'')]]]"

definition send_main_menu :: "env \<Rightarrow> plugin \<Rightarrow> pyval \<Rightarrow> (exn + bool) \<times> plugin" where
  "send_main_menu e s channel =
     post_message e s channel (PStr menu_title) (PStr menu_text) (Some menu_buttons)"

text \<open>
  \<open>handle_command\<close>, given \<open>event.event_data\<close>: \<open>Inr ()\<close> when it returns, \<open>Inl x\<close>
  when the exception \<open>x\<close> leaves it. The result of \<open>post_message\<close> is dropped.
\<close>

definition handle_command :: "env \<Rightarrow> plugin \<Rightarrow> dict \<Rightarrow> (exn + unit) \<times> plugin" where
  "handle_command e s event_data =
     (if eq_str (dict_get event_data ''action'') ''send_feishu_menu''
      then (let channel = py_or (dict_get event_data ''channel'') (dict_get event_data ''user'')
            in if truthy channel
               then (case send_main_menu e s channel of
                       (Inl x, s1) \<Rightarrow> (Inl x, s1)
                     | (Inr b, s1) \<Rightarrow> (Inr (), log_line Info (MenuSent channel) s1))
               else (Inr (), s))
      else (Inr (), s))"

section \<open>Concurrent callers of \<open>_get_access_token\<close>\<close>

text \<open>
  The source has no lock and no other synchronisation. To speak about callers that overlap,
  one call of \<open>_get_access_token\<close> is cut at the one point where it blocks, the network
  call: the test and the credentials (lines 70 to 77), the call itself (lines 81 to 83,
  with the credentials read before), and the handling of the answer (lines 84 to 91). A
  call is at one of these points or has returned.
\<close>

datatype pc = AtCheck | AtPost pyval pyval | AtStore reply | Returned pyval

definition step_call :: "env \<Rightarrow> pc \<Rightarrow> plugin \<Rightarrow> pc \<times> plugin" where
  "step_call e p s =
     (case p of
        AtCheck \<Rightarrow>
          (let (hit, s1) = cache_check e s in
           if hit then (Returned (access_token s1), s1)
           else
             (let app_id = dict_get (plugin_config s1) ''feishu_app_id'';
                  app_secret = dict_get (plugin_config s1) ''feishu_app_secret''
              in if \<not> truthy app_id \<or> \<not> truthy app_secret
                 then (Returned PNone, log_line Warn CredentialsMissing s1)
                 else (AtPost app_id app_secret, s1)))
      | AtPost app_id app_secret \<Rightarrow>
          (let (r, s1) =
                 post e \<lparr>pooled = session s, url = token_url, headers = [],
                          json = PDict [(''app_id'', app_id), (''app_secret'', app_secret)],
                          timeout = 10\<rparr> s
           in (AtStore r, s1))
      | AtStore r \<Rightarrow> (let (v, s1) = token_reply e r s in (Returned v, s1))
      | Returned v \<Rightarrow> (Returned v, s))"

text \<open>
  A schedule names, step by step, the caller that moves next; the callers share the plugin
  object.
\<close>

fun run :: "env \<Rightarrow> nat list \<Rightarrow> pc list \<times> plugin \<Rightarrow> pc list \<times> plugin" where
  "run e [] c = c"
| "run e (i # sched) (pcs, s) =
     (if i < length pcs
      then (let (p, s1) = step_call e (pcs ! i) s in run e sched (pcs[i := p], s1))
      else run e sched (pcs, s))"


section \<open>Notions of the specification\<close>

text \<open>
  The host's logging methods (\<open>debug\<close>, \<open>info\<close>, \<open>warn\<close>, \<open>error\<close>) are not part of
  the repository; they are taken to record the line and return.
\<close>

text \<open>
  A valid cached token: the test of line 70 succeeds at the next clock reading. A cached
  token exists when \<open>self._access_token\<close> is truthy.
\<close>

definition cached_valid :: "env \<Rightarrow> plugin \<Rightarrow> bool" where
  "cached_valid e s = (truthy (access_token s) \<and> clock e (ticks s) < token_expiry s)"

text \<open>The state after the test of line 70: one clock reading more when the token is truthy.\<close>

definition checked :: "plugin \<Rightarrow> plugin" where
  "checked s = (if truthy (access_token s) then s\<lparr>ticks := Suc (ticks s)\<rparr> else s)"

text \<open>Both credentials are configured and not empty.\<close>

definition has_credentials :: "plugin \<Rightarrow> bool" where
  "has_credentials s =
     (truthy (dict_get (plugin_config s) ''feishu_app_id'') \<and>
      truthy (dict_get (plugin_config s) ''feishu_app_secret''))"

text \<open>The token endpoint answers with code 0 and the token \<open>tok\<close>.\<close>

definition token_granted :: "reply \<Rightarrow> pyval \<Rightarrow> bool" where
  "token_granted r tok =
     (case r of
        Json (PDict d) \<Rightarrow>
          eq_int (dict_get d ''code'') 0 \<and> map_of d ''app_access_token'' = Some tok
      | _ \<Rightarrow> False)"

text \<open>The token endpoint answers with a code other than 0, or the request raises.\<close>

definition auth_failure :: "reply \<Rightarrow> bool" where
  "auth_failure r =
     (case r of
        Raises x \<Rightarrow> True
      | Json (PDict d) \<Rightarrow> \<not> eq_int (dict_get d ''code'') 0
      | Json _ \<Rightarrow> False)"

text \<open>The message endpoint answers with a code other than 0.\<close>

definition message_refused :: "reply \<Rightarrow> bool" where
  "message_refused r =
     (case r of
        Json (PDict d) \<Rightarrow> \<not> eq_int (dict_get d ''code'') 0
      | _ \<Rightarrow> False)"

text \<open>The calls made so far to one endpoint.\<close>

definition calls_to :: "string \<Rightarrow> plugin \<Rightarrow> request list" where
  "calls_to u s = filter (\<lambda>r. url r = u) (sent s)"

text \<open>A button dictionary with the two keys that the source reads with \<open>btn[...]\<close>.\<close>

definition button_ok :: "dict \<Rightarrow> bool" where
  "button_ok btn = (map_of btn ''text'' \<noteq> None \<and> map_of btn ''callback_data'' \<noteq> None)"

definition buttons_ok :: "dict list list option \<Rightarrow> bool" where
  "buttons_ok buttons =
     (case buttons of None \<Rightarrow> True | Some rows \<Rightarrow> list_all (list_all button_ok) rows)"

subsection \<open>The interactive payload, as the specification words it\<close>

text \<open>The emphasis flag of a button: absent counts as false.\<close>

definition emphasis :: "dict \<Rightarrow> bool" where
  "emphasis btn = (case map_of btn ''primary'' of None \<Rightarrow> False | Some v \<Rightarrow> truthy v)"

text \<open>
  One rendered button: the label as plain text, the style \<open>primary\<close> for an emphasised
  button and \<open>default\<close> otherwise, the callback value as it is.
\<close>

definition spec_button :: "dict \<Rightarrow> pyval" where
  "spec_button btn =
     PDict [(''tag'', PStr ''button''),
            (''text'', PDict [(''tag'', PStr ''plain_text''),
                              (''content'', dict_get btn ''text'')]),
            (''type'', PStr (if emphasis btn then ''primary'' else ''default'')),
            (''value'', PDict [(''type'', PStr ''callback''),
                               (''data'', dict_get btn ''callback_data'')])]"

text \<open>One action block per row, its buttons in the order of the row.\<close>

definition spec_action :: "dict list \<Rightarrow> pyval" where
  "spec_action row =
     PDict [(''tag'', PStr ''action''), (''actions'', PList (map spec_button row))]"

text \<open>
  The payload for a title, a body and a button grid: the header with the title as plain
  text, the body block with the body or a single space when the body is empty, then the
  action blocks in the order of the rows.
\<close>

definition spec_card :: "string \<Rightarrow> string \<Rightarrow> dict list list \<Rightarrow> pyval" where
  "spec_card title body rows =
     PDict [(''config'', PDict [(''wide_screen_mode'', PBool True)]),
            (''header'', PDict [(''title'', PDict [(''tag'', PStr ''plain_text''),
                                                   (''content'', PStr title)]),
                                (''template'', PStr ''blue'')]),
            (''elements'',
               PList (PDict [(''tag'', PStr ''div''),
                             (''text'', PDict [(''tag'', PStr ''lark_md''),
                                               (''content'',
                                                  PStr (if body = [] then '' '' else body))])]
                      # map spec_action rows))]"

section \<open>Sample environments and inputs\<close>

text \<open>A clock given by its successive readings (0 after the last one).\<close>

definition clock_of :: "real list \<Rightarrow> nat \<Rightarrow> real" where
  "clock_of ts n = (if n < length ts then ts ! n else 0)"

text \<open>A world whose two endpoints always give the same answers.\<close>

definition world :: "real list \<Rightarrow> reply \<Rightarrow> reply \<Rightarrow> env" where
  "world ts token_answer message_answer =
     \<lparr>clock = clock_of ts,
      respond = (\<lambda>h r. if url r = token_url then token_answer else message_answer)\<rparr>"

definition granted :: reply where
  "granted = Json (PDict [(''code'', PInt 0), (''app_access_token'', PStr ''tok123'')])"

definition accepted :: reply where
  "accepted = Json (PDict [(''code'', PInt 0)])"

definition refused :: reply where
  "refused = Json (PDict [(''code'', PInt 99), (''msg'', PStr ''invalid app'')])"

definition button_a :: dict where
  "button_a = [(''text'', PStr ''A''), (''callback_data'', PStr ''a''), (''primary'', PBool True)]"

text \<open>A plugin that holds the token \<open>tok123\<close>, valid until 6400.\<close>

definition holding :: plugin where
  "holding = (init default_config)\<lparr>access_token := PStr ''tok123'', token_expiry := 6400\<rparr>"

section \<open>Evaluation and basic facts\<close>

lemmas model_defs =
  cached_valid_def has_credentials_def token_granted_def
  get_access_token_def cache_check_def token_reply_def time_time_def post_def log_line_def
  token_request_def dict_get_def getitem_def init_def default_config_def
  post_message_def build_card_def body_block_def card_of_def button_element_def
  message_request_def message_reply_def py_or_def
  world_def clock_of_def granted_def accepted_def refused_def button_a_def holding_def
  buttons_ok_def button_ok_def token_url_def message_url_def
  spec_card_def spec_action_def spec_button_def emphasis_def Let_def

lemma urls_differ: "token_url \<noteq> message_url"
  by (simp add: token_url_def message_url_def)

lemma url_token_request [simp]: "url (token_request s) = token_url"
  by (simp add: token_request_def)

lemma url_message_request [simp]: "url (message_request s tok ch crd) = message_url"
  by (simp add: message_request_def)

lemma checked_frame [simp]:
  "plugin_config (checked s) = plugin_config s" "session (checked s) = session s"
  "access_token (checked s) = access_token s" "token_expiry (checked s) = token_expiry s"
  "sent (checked s) = sent s" "logged (checked s) = logged s" "closes (checked s) = closes s"
  by (simp_all add: checked_def)

subsection \<open>The three ways through \<open>_get_access_token\<close>\<close>

lemma cache_check_eq: "cache_check e s = (cached_valid e s, checked s)"
  by (simp add: cache_check_def cached_valid_def checked_def time_time_def)

lemma get_hit:
  "cached_valid e s \<Longrightarrow>
   get_access_token e s = (access_token s, s\<lparr>ticks := Suc (ticks s)\<rparr>)"
  by (simp add: get_access_token_def cache_check_eq checked_def cached_valid_def)

lemma get_unconfigured:
  "\<not> cached_valid e s \<Longrightarrow> \<not> has_credentials s \<Longrightarrow>
   get_access_token e s = (PNone, log_line Warn CredentialsMissing (checked s))"
  by (auto simp add: get_access_token_def cache_check_eq checked_def has_credentials_def)

lemma get_miss:
  "\<not> cached_valid e s \<Longrightarrow> has_credentials s \<Longrightarrow>
   get_access_token e s =
     token_reply e (respond e (sent s) (token_request s))
       ((checked s)\<lparr>sent := sent s @ [token_request s]\<rparr>)"
  by (auto simp add: get_access_token_def cache_check_eq checked_def has_credentials_def post_def
      token_request_def)

lemma token_reply_granted:
  "token_granted r tok \<Longrightarrow>
   token_reply e r s =
     (tok, s\<lparr>access_token := tok, ticks := Suc (ticks s),
             token_expiry := clock e (ticks s) + 5400\<rparr>)"
  by (auto simp add: token_granted_def token_reply_def getitem_def time_time_def
      split: reply.splits pyval.splits)

lemma token_reply_failure:
  "auth_failure r \<Longrightarrow> \<exists>m. token_reply e r s = (PNone, log_line Error m s)"
  by (auto simp add: auth_failure_def token_reply_def split: reply.splits pyval.splits)

lemma get_issue:
  assumes "\<not> cached_valid e s" "has_credentials s"
    "token_granted (respond e (sent s) (token_request s)) tok"
  shows "get_access_token e s =
      (tok, (checked s)\<lparr>sent := sent s @ [token_request s], access_token := tok,
             ticks := Suc (ticks (checked s)),
             token_expiry := clock e (ticks (checked s)) + 5400\<rparr>)"
proof -
  have "get_access_token e s = token_reply e (respond e (sent s) (token_request s))
       ((checked s)\<lparr>sent := sent s @ [token_request s]\<rparr>)"
    using assms by (simp add: get_miss)
  also have "\<dots> = (tok, (checked s)\<lparr>sent := sent s @ [token_request s], access_token := tok,
             ticks := Suc (ticks (checked s)),
             token_expiry := clock e (ticks (checked s)) + 5400\<rparr>)"
    using assms by (subst token_reply_granted[where tok = tok]) simp_all
  finally show ?thesis .
qed

lemma get_refused:
  assumes "\<not> cached_valid e s" "has_credentials s"
    "auth_failure (respond e (sent s) (token_request s))"
  shows "\<exists>m. get_access_token e s =
      (PNone, log_line Error m ((checked s)\<lparr>sent := sent s @ [token_request s]\<rparr>))"
  using assms token_reply_failure[of "respond e (sent s) (token_request s)" e
      "(checked s)\<lparr>sent := sent s @ [token_request s]\<rparr>"]
  by (simp add: get_miss)

section \<open>Credential manager\<close>

text \<open>
  Claim C2. When a cached token exists (\<open>self._access_token\<close> is truthy) and the clock
  reads a time strictly before the expiry, \<open>_get_access_token\<close> returns the cached token
  and makes no network call. Consequently, when a first call finds no valid token, has
  credentials and is granted a token, and a second call falls within the validity window
  of that token, both calls return the token and the two calls together add exactly one
  network call, the one to the token endpoint.
\<close>

theorem cache_hit_single_call:
  "(cached_valid e s \<longrightarrow>
      get_access_token e s = (access_token s, s\<lparr>ticks := Suc (ticks s)\<rparr>) \<and>
      sent (snd (get_access_token e s)) = sent s) \<and>
   (\<not> cached_valid e s \<and> has_credentials s \<and>
    token_granted (respond e (sent s) (token_request s)) tok \<and>
    cached_valid e (snd (get_access_token e s)) \<longrightarrow>
      fst (get_access_token e s) = tok \<and>
      fst (get_access_token e (snd (get_access_token e s))) = tok \<and>
      sent (snd (get_access_token e (snd (get_access_token e s)))) =
        sent s @ [token_request s] \<and>
      url (token_request s) = token_url)"
proof (intro conjI impI)
  assume h: "cached_valid e s"
  show "get_access_token e s = (access_token s, s\<lparr>ticks := Suc (ticks s)\<rparr>)"
    using h by (rule get_hit)
  then show "sent (snd (get_access_token e s)) = sent s" by simp
next
  assume h: "\<not> cached_valid e s \<and> has_credentials s \<and>
    token_granted (respond e (sent s) (token_request s)) tok \<and>
    cached_valid e (snd (get_access_token e s))"
  let ?s1 = "snd (get_access_token e s)"
  have first: "get_access_token e s =
      (tok, (checked s)\<lparr>sent := sent s @ [token_request s], access_token := tok,
             ticks := Suc (ticks (checked s)),
             token_expiry := clock e (ticks (checked s)) + 5400\<rparr>)"
    using h by (intro get_issue) simp_all
  show "fst (get_access_token e s) = tok" by (simp add: first)
  have second: "get_access_token e ?s1 = (access_token ?s1, ?s1\<lparr>ticks := Suc (ticks ?s1)\<rparr>)"
    using h by (simp add: get_hit)
  show "fst (get_access_token e ?s1) = tok"
    by (simp add: second) (simp add: first)
  show "sent (snd (get_access_token e ?s1)) = sent s @ [token_request s]"
    by (simp add: second) (simp add: first)
  show "url (token_request s) = token_url" by simp
qed

theorem cache_hit_single_call_witness:
  "cached_valid (world [1000] granted accepted) holding \<and>
   get_access_token (world [1000] granted accepted) holding =
     (PStr ''tok123'', holding\<lparr>ticks := 1\<rparr>) \<and>
   sent (snd (get_access_token (world [1000] granted accepted) holding)) = [] \<and>
   \<not> cached_valid (world [1000, 2000] granted accepted) (init default_config) \<and>
   has_credentials (init default_config) \<and>
   token_granted (respond (world [1000, 2000] granted accepted) (sent (init default_config))
     (token_request (init default_config))) (PStr ''tok123'') \<and>
   cached_valid (world [1000, 2000] granted accepted)
     (snd (get_access_token (world [1000, 2000] granted accepted) (init default_config))) \<and>
   fst (get_access_token (world [1000, 2000] granted accepted)
     (snd (get_access_token (world [1000, 2000] granted accepted) (init default_config)))) =
     PStr ''tok123'' \<and>
   sent (snd (get_access_token (world [1000, 2000] granted accepted)
     (snd (get_access_token (world [1000, 2000] granted accepted) (init default_config))))) =
     [token_request (init default_config)]"
proof -
  let ?e1 = "world [1000] granted accepted"
  let ?e2 = "world [1000, 2000] granted accepted"
  let ?s = "init default_config"
  have a: "cached_valid ?e1 holding"
    by (simp add: model_defs)
  have b: "\<not> cached_valid ?e2 ?s \<and> has_credentials ?s \<and>
      token_granted (respond ?e2 (sent ?s) (token_request ?s)) (PStr ''tok123'') \<and>
      cached_valid ?e2 (snd (get_access_token ?e2 ?s))"
    by (simp add: model_defs)
  have c: "access_token holding = PStr ''tok123'' \<and> ticks holding = 0 \<and> sent holding = [] \<and>
      sent ?s = []"
    by (simp add: model_defs)
  show ?thesis
    using a b c cache_hit_single_call[of ?e1 holding]
      cache_hit_single_call[of ?e2 ?s "PStr ''tok123''"]
    by simp
qed



section \<open>Delivery pipeline\<close>

subsection \<open>The ways through \<open>post_message\<close>\<close>

lemma message_reply_frame:
  "access_token (snd (message_reply r ch s)) = access_token s \<and>
   token_expiry (snd (message_reply r ch s)) = token_expiry s \<and>
   sent (snd (message_reply r ch s)) = sent s \<and>
   plugin_config (snd (message_reply r ch s)) = plugin_config s \<and>
   session (snd (message_reply r ch s)) = session s"
  by (simp add: message_reply_def log_line_def split: reply.splits pyval.splits)

lemma post_message_no_token:
  "\<not> truthy (fst (get_access_token e s)) \<Longrightarrow>
   post_message e s ch ti tx bs = (Inr False, snd (get_access_token e s))"
  by (cases "get_access_token e s") (simp add: post_message_def)

lemma post_message_raises:
  "truthy (fst (get_access_token e s)) \<Longrightarrow> build_card ti tx bs = Inl x \<Longrightarrow>
   post_message e s ch ti tx bs = (Inl x, snd (get_access_token e s))"
  by (cases "get_access_token e s") (simp add: post_message_def)

lemma post_message_sends:
  "truthy (fst (get_access_token e s)) \<Longrightarrow> build_card ti tx bs = Inr crd \<Longrightarrow>
   get_access_token e s = (tok, s1) \<Longrightarrow>
   post_message e s ch ti tx bs =
     (Inr (fst (message_reply (respond e (sent s1) (message_request s1 tok ch crd)) ch
                 (s1\<lparr>sent := sent s1 @ [message_request s1 tok ch crd]\<rparr>))),
      snd (message_reply (respond e (sent s1) (message_request s1 tok ch crd)) ch
                 (s1\<lparr>sent := sent s1 @ [message_request s1 tok ch crd]\<rparr>)))"
  by (simp add: post_message_def post_def split: prod.splits)

text \<open>
  Claim C4. When no valid cached token exists and the app identifier or the app secret is
  missing or empty, \<open>_get_access_token\<close> returns \<open>None\<close>, logs the configuration
  warning and makes no network call; \<open>post_message\<close> in that state returns \<open>False\<close>
  and makes no network call either, to neither endpoint.
\<close>

theorem unconfigured_no_network:
  assumes "\<not> cached_valid e s" and "\<not> has_credentials s"
  shows "fst (get_access_token e s) = PNone \<and>
         sent (snd (get_access_token e s)) = sent s \<and>
         logged (snd (get_access_token e s)) = logged s @ [(Warn, CredentialsMissing)] \<and>
         fst (post_message e s channel title text buttons) = Inr False \<and>
         sent (snd (post_message e s channel title text buttons)) = sent s"
  using assms
  by (simp add: get_unconfigured post_message_no_token log_line_def)

theorem unconfigured_no_network_witness:
  "\<not> cached_valid (world [] granted accepted)
       (init [(''feishu_app_id'', PStr ''cli_x''), (''feishu_app_secret'', PStr '''')]) \<and>
   \<not> has_credentials (init [(''feishu_app_id'', PStr ''cli_x''), (''feishu_app_secret'', PStr '''')]) \<and>
   fst (get_access_token (world [] granted accepted)
       (init [(''feishu_app_id'', PStr ''cli_x''), (''feishu_app_secret'', PStr '''')])) = PNone \<and>
   sent (snd (get_access_token (world [] granted accepted)
       (init [(''feishu_app_id'', PStr ''cli_x''), (''feishu_app_secret'', PStr '''')]))) = [] \<and>
   fst (post_message (world [] granted accepted)
       (init [(''feishu_app_id'', PStr ''cli_x''), (''feishu_app_secret'', PStr '''')])
       (PStr ''oc_1'') (PStr ''Hi'') (PStr '''') (Some [[button_a]])) = Inr False \<and>
   sent (snd (post_message (world [] granted accepted)
       (init [(''feishu_app_id'', PStr ''cli_x''), (''feishu_app_secret'', PStr '''')])
       (PStr ''oc_1'') (PStr ''Hi'') (PStr '''') (Some [[button_a]]))) = []"
proof -
  let ?e = "world [] granted accepted"
  let ?s = "init [(''feishu_app_id'', PStr ''cli_x''), (''feishu_app_secret'', PStr '''')]"
  have h1: "\<not> cached_valid ?e ?s" and h2: "\<not> has_credentials ?s" and h3: "sent ?s = []"
    by (simp_all add: model_defs)
  show ?thesis
    using h1 h2 h3
      unconfigured_no_network[OF h1 h2, of "PStr ''oc_1''" "PStr ''Hi''" "PStr ''''"
        "Some [[button_a]]"]
    by simp
qed

text \<open>
  Claim C5. When no valid cached token exists, credentials are present and the token
  endpoint answers with a non-zero code (or the request raises), \<open>_get_access_token\<close>
  returns \<open>None\<close> and leaves the cached token and the expiry unchanged; its only network
  call is the one to the token endpoint. \<open>post_message\<close> in that situation returns
  \<open>False\<close>, leaves token and expiry unchanged, and makes no call to the message endpoint.
  The situation is the same after a failed \<open>_get_access_token\<close>, whose state change
  touches neither the credentials nor the token.
\<close>

theorem auth_failure_not_cached:
  assumes "\<not> cached_valid e s" and "has_credentials s"
    and "auth_failure (respond e (sent s) (token_request s))"
  shows "fst (get_access_token e s) = PNone \<and>
         access_token (snd (get_access_token e s)) = access_token s \<and>
         token_expiry (snd (get_access_token e s)) = token_expiry s \<and>
         plugin_config (snd (get_access_token e s)) = plugin_config s \<and>
         sent (snd (get_access_token e s)) = sent s @ [token_request s] \<and>
         fst (post_message e s channel title text buttons) = Inr False \<and>
         access_token (snd (post_message e s channel title text buttons)) = access_token s \<and>
         token_expiry (snd (post_message e s channel title text buttons)) = token_expiry s \<and>
         sent (snd (post_message e s channel title text buttons)) = sent s @ [token_request s] \<and>
         calls_to message_url (snd (post_message e s channel title text buttons)) =
           calls_to message_url s"
proof -
  obtain m where g: "get_access_token e s =
      (PNone, log_line Error m ((checked s)\<lparr>sent := sent s @ [token_request s]\<rparr>))"
    using get_refused[OF assms] by blast
  have p: "post_message e s channel title text buttons =
      (Inr False, log_line Error m ((checked s)\<lparr>sent := sent s @ [token_request s]\<rparr>))"
    using post_message_no_token[of e s channel title "text" buttons] by (simp add: g)
  show ?thesis
    using urls_differ by (simp add: g p log_line_def calls_to_def)
qed

theorem auth_failure_not_cached_witness:
  "\<not> cached_valid (world [] refused accepted) (init default_config) \<and>
   has_credentials (init default_config) \<and>
   auth_failure (respond (world [] refused accepted) (sent (init default_config))
     (token_request (init default_config))) \<and>
   fst (get_access_token (world [] refused accepted) (init default_config)) = PNone \<and>
   access_token (snd (get_access_token (world [] refused accepted) (init default_config))) =
     PNone \<and>
   token_expiry (snd (get_access_token (world [] refused accepted) (init default_config))) = 0 \<and>
   fst (post_message (world [] refused accepted)
     (snd (get_access_token (world [] refused accepted) (init default_config)))
     (PStr ''oc_1'') (PStr ''Hi'') (PStr '''') (Some [[button_a]])) = Inr False \<and>
   calls_to message_url (snd (post_message (world [] refused accepted)
     (snd (get_access_token (world [] refused accepted) (init default_config)))
     (PStr ''oc_1'') (PStr ''Hi'') (PStr '''') (Some [[button_a]]))) = []"
proof -
  let ?e = "world [] refused accepted"
  let ?s = "init default_config"
  let ?s1 = "snd (get_access_token ?e ?s)"
  have h1: "\<not> cached_valid ?e ?s" and h2: "has_credentials ?s"
    and h3: "auth_failure (respond ?e (sent ?s) (token_request ?s))"
    and h4: "access_token ?s = PNone" "token_expiry ?s = 0" "sent ?s = []"
    by (simp_all add: model_defs auth_failure_def)
  note first = auth_failure_not_cached[OF h1 h2 h3, of PNone PNone PNone None]
  have k1: "\<not> cached_valid ?e ?s1"
    using first h4 by (simp add: cached_valid_def)
  have k2: "has_credentials ?s1"
    using first h2 by (simp add: has_credentials_def)
  have k3: "auth_failure (respond ?e (sent ?s1) (token_request ?s1))"
    by (simp add: world_def refused_def auth_failure_def dict_get_def)
  have k4: "calls_to message_url ?s1 = []"
    using first h4 urls_differ by (simp add: calls_to_def)
  show ?thesis
    using h1 h2 h3 h4 first k4
      auth_failure_not_cached[OF k1 k2 k3, of "PStr ''oc_1''" "PStr ''Hi''" "PStr ''''"
        "Some [[button_a]]"]
    by simp
qed

subsection \<open>The message builder on well-formed buttons\<close>

lemma button_element_ok: "button_ok btn \<Longrightarrow> button_element btn = Inr (spec_button btn)"
  by (auto simp add: button_ok_def button_element_def getitem_def spec_button_def dict_get_def
      emphasis_def split: option.splits)

lemma row_actions_ok:
  "list_all button_ok row \<Longrightarrow> row_actions row actions = Inr (actions @ map spec_button row)"
  by (induction row arbitrary: actions) (simp_all add: button_element_ok)

lemma add_rows_ok:
  "list_all (list_all button_ok) rows \<Longrightarrow>
   add_rows rows elements = Inr (elements @ map spec_action rows)"
  by (induction rows arbitrary: elements) (simp_all add: row_actions_ok spec_action_def)

lemma build_card_ok: "buttons_ok bs \<Longrightarrow> \<exists>crd. build_card ti tx bs = Inr crd"
  by (auto simp add: buttons_ok_def build_card_def add_rows_ok split: option.splits)

lemma build_card_spec:
  "list_all (list_all button_ok) rows \<Longrightarrow>
   build_card (PStr title) (PStr body) (Some rows) = Inr (spec_card title body rows)"
  by (simp add: build_card_def add_rows_ok spec_card_def card_of_def body_block_def py_or_def)

lemma post_message_total:
  assumes "buttons_ok buttons"
  shows "\<exists>b. fst (post_message e s channel title text buttons) = Inr b"
proof (cases "get_access_token e s")
  case (Pair tok s1)
  obtain crd where crd: "build_card title text buttons = Inr crd"
    using assms build_card_ok by blast
  show ?thesis
  proof (cases "truthy tok")
    case True
    then show ?thesis
      using Pair crd by (simp add: post_message_def split: prod.splits)
  next
    case False
    then show ?thesis using Pair by (auto simp add: post_message_def)
  qed
qed

lemma post_message_cached:
  assumes "cached_valid e s" and "build_card title text buttons = Inr crd"
  shows "sent (snd (post_message e s channel title text buttons)) =
     sent s @ [message_request s (access_token s) channel crd]"
proof -
  have g: "get_access_token e s = (access_token s, s\<lparr>ticks := Suc (ticks s)\<rparr>)"
    using assms(1) by (rule get_hit)
  have t: "truthy (fst (get_access_token e s))"
    using assms(1) by (simp add: g cached_valid_def)
  show ?thesis
    by (simp add: post_message_sends[OF t assms(2) g] message_reply_frame)
       (simp add: message_request_def)
qed




text \<open>
  Claim C6. The message builder depends on the title, the body and the button grid only.
  Without buttons, and with any grid of well-formed buttons, it yields the payload of the
  specification: the title as plain text in the header, the body or a single space when the
  body is empty in the body block, and after it one action block per row, rows and buttons
  in their order, the style \<open>primary\<close> for an emphasised button and \<open>default\<close> for any
  other, the callback value unchanged. That payload is the content of the message that
  \<open>post_message\<close> sends, whatever the state and the environment.
\<close>

theorem message_builder:
  "build_card (PStr title) (PStr body) None = Inr (spec_card title body []) \<and>
   (list_all (list_all button_ok) rows \<longrightarrow>
      build_card (PStr title) (PStr body) (Some rows) = Inr (spec_card title body rows)) \<and>
   (list_all (list_all button_ok) rows \<and> cached_valid e s \<longrightarrow>
      sent (snd (post_message e s channel (PStr title) (PStr body) (Some rows))) =
        sent s @ [message_request s (access_token s) channel (spec_card title body rows)])"
proof (intro conjI impI)
  show "build_card (PStr title) (PStr body) None = Inr (spec_card title body [])"
    by (simp add: build_card_def spec_card_def card_of_def body_block_def py_or_def)
next
  assume "list_all (list_all button_ok) rows"
  then show "build_card (PStr title) (PStr body) (Some rows) = Inr (spec_card title body rows)"
    by (rule build_card_spec)
next
  assume h: "list_all (list_all button_ok) rows \<and> cached_valid e s"
  then have "build_card (PStr title) (PStr body) (Some rows) = Inr (spec_card title body rows)"
    by (simp add: build_card_spec)
  with h show "sent (snd (post_message e s channel (PStr title) (PStr body) (Some rows))) =
        sent s @ [message_request s (access_token s) channel (spec_card title body rows)]"
    by (simp add: post_message_cached)
qed

theorem message_builder_witness:
  "list_all (list_all button_ok)
     [[button_a, [(''text'', PStr ''B''), (''callback_data'', PStr ''b'')]],
      [[(''text'', PStr ''C''), (''callback_data'', PStr ''c''), (''primary'', PBool False)]]] \<and>
   cached_valid (world [1000] granted accepted) holding \<and>
   build_card (PStr ''Hi'') (PStr '''')
     (Some [[button_a, [(''text'', PStr ''B''), (''callback_data'', PStr ''b'')]],
      [[(''text'', PStr ''C''), (''callback_data'', PStr ''c''), (''primary'', PBool False)]]]) =
   Inr (PDict
     [(''config'', PDict [(''wide_screen_mode'', PBool True)]),
      (''header'', PDict [(''title'', PDict [(''tag'', PStr ''plain_text''),
                                             (''content'', PStr ''Hi'')]),
                          (''template'', PStr ''blue'')]),
      (''elements'', PList
         [PDict [(''tag'', PStr ''div''),
                 (''text'', PDict [(''tag'', PStr ''lark_md''), (''content'', PStr '' '')])],
          PDict [(''tag'', PStr ''action''),
                 (''actions'', PList
                    [PDict [(''tag'', PStr ''button''),
                            (''text'', PDict [(''tag'', PStr ''plain_text''),
                                              (''content'', PStr ''A'')]),
                            (''type'', PStr ''primary''),
                            (''value'', PDict [(''type'', PStr ''callback''),
                                               (''data'', PStr ''a'')])],
                     PDict [(''tag'', PStr ''button''),
                            (''text'', PDict [(''tag'', PStr ''plain_text''),
                                              (''content'', PStr ''B'')]),
                            (''type'', PStr ''default''),
                            (''value'', PDict [(''type'', PStr ''callback''),
                                               (''data'', PStr ''b'')])]])],
          PDict [(''tag'', PStr ''action''),
                 (''actions'', PList
                    [PDict [(''tag'', PStr ''button''),
                            (''text'', PDict [(''tag'', PStr ''plain_text''),
                                              (''content'', PStr ''C'')]),
                            (''type'', PStr ''default''),
                            (''value'', PDict [(''type'', PStr ''callback''),
                                               (''data'', PStr ''c'')])]])]])]) \<and>
   map json (sent (snd (post_message (world [1000] granted accepted) holding (PStr ''oc_1'')
     (PStr ''Hi'') (PStr '''') (Some [[button_a]])))) =
   [PDict [(''receive_id'', PStr ''oc_1''), (''msg_type'', PStr ''interactive''),
           (''content'', spec_card ''Hi'' '''' [[button_a]])]]"
proof -
  let ?rows = "[[button_a, [(''text'', PStr ''B''), (''callback_data'', PStr ''b'')]],
      [[(''text'', PStr ''C''), (''callback_data'', PStr ''c''), (''primary'', PBool False)]]]"
  let ?e = "world [1000] granted accepted"
  have h1: "list_all (list_all button_ok) ?rows" and h2: "list_all (list_all button_ok) [[button_a]]"
    and h3: "cached_valid ?e holding" and h4: "sent holding = []"
    by (simp_all add: model_defs)
  have v: "spec_card ''Hi'' '''' ?rows = PDict
     [(''config'', PDict [(''wide_screen_mode'', PBool True)]),
      (''header'', PDict [(''title'', PDict [(''tag'', PStr ''plain_text''),
                                             (''content'', PStr ''Hi'')]),
                          (''template'', PStr ''blue'')]),
      (''elements'', PList
         [PDict [(''tag'', PStr ''div''),
                 (''text'', PDict [(''tag'', PStr ''lark_md''), (''content'', PStr '' '')])],
          PDict [(''tag'', PStr ''action''),
                 (''actions'', PList
                    [PDict [(''tag'', PStr ''button''),
                            (''text'', PDict [(''tag'', PStr ''plain_text''),
                                              (''content'', PStr ''A'')]),
                            (''type'', PStr ''primary''),
                            (''value'', PDict [(''type'', PStr ''callback''),
                                               (''data'', PStr ''a'')])],
                     PDict [(''tag'', PStr ''button''),
                            (''text'', PDict [(''tag'', PStr ''plain_text''),
                                              (''content'', PStr ''B'')]),
                            (''type'', PStr ''default''),
                            (''value'', PDict [(''type'', PStr ''callback''),
                                               (''data'', PStr ''b'')])]])],
          PDict [(''tag'', PStr ''action''),
                 (''actions'', PList
                    [PDict [(''tag'', PStr ''button''),
                            (''text'', PDict [(''tag'', PStr ''plain_text''),
                                              (''content'', PStr ''C'')]),
                            (''type'', PStr ''default''),
                            (''value'', PDict [(''type'', PStr ''callback''),
                                               (''data'', PStr ''c'')])]])]])]"
    by (simp add: spec_card_def spec_action_def spec_button_def emphasis_def dict_get_def
        button_a_def)
  show ?thesis
    using h1 h2 h3 h4 v message_builder[of "''Hi''" "''''" ?rows ?e holding "PStr ''oc_1''"]
      message_builder[of "''Hi''" "''''" "[[button_a]]" ?e holding "PStr ''oc_1''"]
    by (simp add: message_request_def)
qed

lemma post_message_frame:
  "access_token (snd (post_message e s channel title text buttons)) =
     access_token (snd (get_access_token e s)) \<and>
   token_expiry (snd (post_message e s channel title text buttons)) =
     token_expiry (snd (get_access_token e s))"
proof -
  obtain tok s1 where g: "get_access_token e s = (tok, s1)"
    by (cases "get_access_token e s")
  show ?thesis
  proof (cases "truthy tok")
    case False
    then show ?thesis using post_message_no_token[of e s] g by simp
  next
    case True
    show ?thesis
    proof (cases "build_card title text buttons")
      case (Inl x)
      then show ?thesis
        using post_message_raises[of e s title "text" buttons x] True g by simp
    next
      case (Inr crd)
      then show ?thesis
        using post_message_sends[of e s title "text" buttons crd tok s1 channel] True g
        by (simp add: message_reply_frame)
    qed
  qed
qed

lemma post_message_refused:
  assumes "cached_valid e s" and "build_card title text buttons = Inr crd"
    and "message_refused (respond e (sent s) (message_request s (access_token s) channel crd))"
  shows "fst (post_message e s channel title text buttons) = Inr False"
proof -
  have g: "get_access_token e s = (access_token s, s\<lparr>ticks := Suc (ticks s)\<rparr>)"
    using assms(1) by (rule get_hit)
  have t: "truthy (fst (get_access_token e s))"
    using assms(1) by (simp add: g cached_valid_def)
  have m: "message_request (s\<lparr>ticks := Suc (ticks s)\<rparr>) (access_token s) channel crd =
      message_request s (access_token s) channel crd"
    by (simp add: message_request_def)
  show ?thesis
    using assms(3)
    by (auto simp add: post_message_sends[OF t assms(2) g] m message_refused_def
        message_reply_def split: reply.splits pyval.splits)
qed

text \<open>
  Claim C7, as amended. \<open>post_message\<close> changes the cached token and its expiry only
  through its call of \<open>_get_access_token\<close>: after \<open>post_message\<close> they are exactly as
  that call left them, whatever the message endpoint answers. So when a valid token is
  cached at the call, token and expiry are unchanged; and in that case a non-zero code from
  the message endpoint yields \<open>False\<close>.
\<close>

theorem send_step_keeps_token:
  "access_token (snd (post_message e s channel title text buttons)) =
     access_token (snd (get_access_token e s)) \<and>
   token_expiry (snd (post_message e s channel title text buttons)) =
     token_expiry (snd (get_access_token e s)) \<and>
   (cached_valid e s \<longrightarrow>
      access_token (snd (post_message e s channel title text buttons)) = access_token s \<and>
      token_expiry (snd (post_message e s channel title text buttons)) = token_expiry s) \<and>
   (cached_valid e s \<and> build_card title text buttons = Inr crd \<and>
    message_refused (respond e (sent s) (message_request s (access_token s) channel crd)) \<longrightarrow>
      fst (post_message e s channel title text buttons) = Inr False)"
  using post_message_frame[of e s channel title "text" buttons]
    post_message_refused[of e s title "text" buttons crd channel]
  by (auto simp add: get_hit)

theorem send_step_keeps_token_witness:
  "cached_valid (world [1000] granted refused) holding \<and>
   build_card (PStr ''Hi'') (PStr '''') (Some [[button_a]]) =
     Inr (spec_card ''Hi'' '''' [[button_a]]) \<and>
   message_refused (respond (world [1000] granted refused) (sent holding)
     (message_request holding (access_token holding) (PStr ''oc_1'')
        (spec_card ''Hi'' '''' [[button_a]]))) \<and>
   fst (post_message (world [1000] granted refused) holding (PStr ''oc_1'') (PStr ''Hi'')
     (PStr '''') (Some [[button_a]])) = Inr False \<and>
   access_token (snd (post_message (world [1000] granted refused) holding (PStr ''oc_1'')
     (PStr ''Hi'') (PStr '''') (Some [[button_a]]))) = PStr ''tok123'' \<and>
   token_expiry (snd (post_message (world [1000] granted refused) holding (PStr ''oc_1'')
     (PStr ''Hi'') (PStr '''') (Some [[button_a]]))) = 6400"
proof -
  let ?e = "world [1000] granted refused"
  have h1: "cached_valid ?e holding"
    and h2: "build_card (PStr ''Hi'') (PStr '''') (Some [[button_a]]) =
      Inr (spec_card ''Hi'' '''' [[button_a]])"
    and h4: "access_token holding = PStr ''tok123''" "token_expiry holding = 6400"
    by (simp_all add: model_defs)
  have h3: "message_refused (respond ?e (sent holding)
     (message_request holding (access_token holding) (PStr ''oc_1'')
        (spec_card ''Hi'' '''' [[button_a]])))"
    using urls_differ by (simp add: world_def refused_def message_refused_def dict_get_def)
  show ?thesis
    using h1 h2 h3 h4
      send_step_keeps_token[of ?e holding "PStr ''oc_1''" "PStr ''Hi''" "PStr ''''"
        "Some [[button_a]]" "spec_card ''Hi'' '''' [[button_a]]"]
    by auto
qed

text \<open>
  Claim C7 as stated fails: a \<open>post_message\<close> that starts without a cached token obtains
  one through \<open>_get_access_token\<close>, so the cached token and the expiry differ from what
  they were before the call, also when the message endpoint then answers with a non-zero
  code and the result is \<open>False\<close>.
\<close>

theorem deliver_refreshes_token:
  "fst (post_message (world [1000] granted refused) (init default_config)
      (PStr ''oc_1'') (PStr ''Hi'') (PStr '''') None) = Inr False \<and>
   access_token (init default_config) = PNone \<and>
   access_token (snd (post_message (world [1000] granted refused) (init default_config)
      (PStr ''oc_1'') (PStr ''Hi'') (PStr '''') None)) = PStr ''tok123'' \<and>
   token_expiry (init default_config) = 0 \<and>
   token_expiry (snd (post_message (world [1000] granted refused) (init default_config)
      (PStr ''oc_1'') (PStr ''Hi'') (PStr '''') None)) = 6400"
  by (simp add: model_defs)

section \<open>Lifecycle\<close>

text \<open>
  Claim C9, as amended. \<open>stop\<close> closes the session once when there is one and clears the
  reference, so a second \<open>stop\<close> closes nothing; it also clears the cached token. After
  \<open>stop\<close> the plugin does not fail fast: with credentials configured,
  \<open>_get_access_token\<close> calls the token endpoint through a fresh one-shot session, and
  \<open>post_message\<close>, once granted a token, sends the message the same way.
\<close>

theorem stop_then_fallback:
  "(session s \<longrightarrow> closes (stop s) = Suc (closes s)) \<and>
   \<not> session (stop s) \<and> closes (stop (stop s)) = closes (stop s) \<and>
   access_token (stop s) = PNone \<and>
   (has_credentials s \<longrightarrow>
      sent (snd (get_access_token e (stop s))) = sent s @ [token_request (stop s)] \<and>
      \<not> pooled (token_request (stop s))) \<and>
   (has_credentials s \<and> token_granted (respond e (sent s) (token_request (stop s))) tok \<and>
    truthy tok \<and> build_card title text buttons = Inr crd \<longrightarrow>
      sent (snd (post_message e (stop s) channel title text buttons)) =
        sent s @ [token_request (stop s), message_request (stop s) tok channel crd] \<and>
      \<not> pooled (message_request (stop s) tok channel crd))"
proof -
  have st: "\<not> session (stop s)" "access_token (stop s) = PNone" "sent (stop s) = sent s"
    "plugin_config (stop s) = plugin_config s"
    by (simp_all add: stop_def log_line_def Let_def)
  have nv: "\<not> cached_valid e (stop s)" by (simp add: cached_valid_def st)
  have cr: "has_credentials (stop s)" if "has_credentials s"
    using that by (simp add: has_credentials_def st)
  have a: "sent (snd (get_access_token e (stop s))) = sent s @ [token_request (stop s)]"
    if "has_credentials s"
    using get_miss[OF nv cr[OF that]]
    by (simp add: st token_reply_def log_line_def time_time_def
        split: reply.splits pyval.splits sum.splits)
  have b: "sent (snd (post_message e (stop s) channel title text buttons)) =
        sent s @ [token_request (stop s), message_request (stop s) tok channel crd]"
    if h: "has_credentials s" "token_granted (respond e (sent s) (token_request (stop s))) tok"
      "truthy tok" "build_card title text buttons = Inr crd"
  proof -
    have g: "get_access_token e (stop s) =
      (tok, (checked (stop s))\<lparr>sent := sent (stop s) @ [token_request (stop s)],
             access_token := tok, ticks := Suc (ticks (checked (stop s))),
             token_expiry := clock e (ticks (checked (stop s))) + 5400\<rparr>)"
      using nv cr[OF h(1)] h(2) by (intro get_issue) (simp_all add: st)
    have t: "truthy (fst (get_access_token e (stop s)))" using h(3) by (simp add: g)
    show ?thesis
      by (simp add: post_message_sends[OF t h(4) g] message_reply_frame st)
         (simp add: message_request_def)
  qed
  show ?thesis
    using st a b
    by (auto simp add: stop_def log_line_def Let_def token_request_def message_request_def)
qed

theorem stop_then_fallback_witness:
  "session (init_session (init default_config)) \<and>
   closes (init_session (init default_config)) = 0 \<and>
   closes (stop (init_session (init default_config))) = 1 \<and>
   closes (stop (stop (init_session (init default_config)))) = 1 \<and>
   has_credentials (init_session (init default_config)) \<and>
   token_granted (respond (world [1000] granted accepted)
     (sent (init_session (init default_config)))
     (token_request (stop (init_session (init default_config))))) (PStr ''tok123'') \<and>
   truthy (PStr ''tok123'') \<and>
   build_card (PStr ''Hi'') (PStr '''') None = Inr (spec_card ''Hi'' '''' []) \<and>
   sent (snd (get_access_token (world [1000] granted accepted)
     (stop (init_session (init default_config))))) =
     [token_request (stop (init_session (init default_config)))] \<and>
   sent (snd (post_message (world [1000] granted accepted)
     (stop (init_session (init default_config))) (PStr ''oc_1'') (PStr ''Hi'') (PStr '''') None)) =
     [token_request (stop (init_session (init default_config))),
      message_request (stop (init_session (init default_config))) (PStr ''tok123'')
        (PStr ''oc_1'') (spec_card ''Hi'' '''' [])] \<and>
   pooled (token_request (init_session (init default_config))) \<and>
   \<not> pooled (token_request (stop (init_session (init default_config))))"
proof -
  let ?e = "world [1000] granted accepted"
  let ?s = "init_session (init default_config)"
  have h1: "session ?s" and h2: "has_credentials ?s"
    and h3: "token_granted (respond ?e (sent ?s) (token_request (stop ?s))) (PStr ''tok123'')"
    and h4: "truthy (PStr ''tok123'')"
    and h5: "build_card (PStr ''Hi'') (PStr '''') None = Inr (spec_card ''Hi'' '''' [])"
    and h6: "closes ?s = 0" "sent ?s = []" "pooled (token_request ?s)"
    by (simp_all add: model_defs stop_def init_session_def)
  show ?thesis
    using h1 h2 h3 h4 h5 h6
      stop_then_fallback[of ?s ?e "PStr ''tok123''" "PStr ''Hi''" "PStr ''''" None
        "spec_card ''Hi'' '''' []" "PStr ''oc_1''"]
    by simp
qed

text \<open>
  Claim C9 as stated fails: after \<open>stop\<close> has closed the session, \<open>post_message\<close>
  does not fail fast. It obtains a token and sends the message, both through fresh
  sessions, and returns \<open>True\<close>.
\<close>

theorem delivers_after_stop:
  "closes (stop (init_session (init default_config))) = 1 \<and>
   fst (post_message (world [1000] granted accepted) (stop (init_session (init default_config)))
      (PStr ''oc_1'') (PStr ''Hi'') (PStr '''') None) = Inr True \<and>
   map pooled (sent (snd (post_message (world [1000] granted accepted)
      (stop (init_session (init default_config)))
      (PStr ''oc_1'') (PStr ''Hi'') (PStr '''') None))) = [False, False] \<and>
   map url (sent (snd (post_message (world [1000] granted accepted)
      (stop (init_session (init default_config)))
      (PStr ''oc_1'') (PStr ''Hi'') (PStr '''') None))) = [token_url, message_url]"
  by (simp add: model_defs stop_def init_session_def)

section \<open>Command dispatcher\<close>

text \<open>
  Claim C10. For every event whose action is \<open>send_feishu_menu\<close>, the target channel is
  the event's \<open>channel\<close> field when it is truthy and its \<open>user\<close> field otherwise. When
  the target is truthy, \<open>handle_command\<close> runs \<open>post_message\<close> on it with the fixed
  title, the fixed body and the fixed buttons, logs the line and returns; with a valid
  cached token its one network call is the message whose content is the payload of the fixed
  menu. When neither field gives a target, the state is unchanged: no action and no network
  call. The fixed buttons are two rows, media library (emphasised) and search in the first,
  settings in the second.
\<close>

theorem handle_command_menu:
  assumes "eq_str (dict_get event_data ''action'') ''send_feishu_menu''"
  shows "let ch = (if truthy (dict_get event_data ''channel'')
                   then dict_get event_data ''channel'' else dict_get event_data ''user'') in
     (truthy ch \<longrightarrow>
        handle_command e s event_data =
          (Inr (), log_line Info (MenuSent ch)
             (snd (post_message e s ch (PStr menu_title) (PStr menu_text) (Some menu_buttons))))) \<and>
     (truthy ch \<and> cached_valid e s \<longrightarrow>
        sent (snd (handle_command e s event_data)) =
          sent s @ [message_request s (access_token s) ch
                      (spec_card menu_title menu_text menu_buttons)]) \<and>
     (\<not> truthy ch \<longrightarrow> handle_command e s event_data = (Inr (), s)) \<and>
     map (map (\<lambda>btn. (dict_get btn ''text'', dict_get btn ''callback_data'', emphasis btn)))
       menu_buttons =
       [[(PStr label_media, PStr ''media'', True), (PStr label_search, PStr ''search'', False)],
        [(PStr label_settings, PStr ''settings'', False)]]"
proof -
  define ch where "ch = (if truthy (dict_get event_data ''channel'')
                   then dict_get event_data ''channel'' else dict_get event_data ''user'')"
  have ok: "list_all (list_all button_ok) menu_buttons"
    by (simp add: menu_buttons_def button_ok_def)
  have crd: "build_card (PStr menu_title) (PStr menu_text) (Some menu_buttons) =
      Inr (spec_card menu_title menu_text menu_buttons)"
    using ok by (rule build_card_spec)
  have bok: "buttons_ok (Some menu_buttons)" using ok by (simp add: buttons_ok_def)
  obtain b where b: "fst (post_message e s ch (PStr menu_title) (PStr menu_text)
      (Some menu_buttons)) = Inr b"
    using post_message_total[OF bok] by blast
  have run: "handle_command e s event_data =
          (Inr (), log_line Info (MenuSent ch)
             (snd (post_message e s ch (PStr menu_title) (PStr menu_text) (Some menu_buttons))))"
    if "truthy ch"
    using that assms b
    by (auto simp add: handle_command_def py_or_def send_main_menu_def ch_def[symmetric]
        split: prod.splits sum.splits)
  have skip: "handle_command e s event_data = (Inr (), s)" if "\<not> truthy ch"
    using that assms by (simp add: handle_command_def py_or_def ch_def[symmetric])
  have send: "sent (snd (handle_command e s event_data)) =
          sent s @ [message_request s (access_token s) ch
                      (spec_card menu_title menu_text menu_buttons)]"
    if "truthy ch" "cached_valid e s"
    by (simp add: run[OF that(1)] log_line_def post_message_cached[OF that(2) crd])
  have rows: "map (map (\<lambda>btn. (dict_get btn ''text'', dict_get btn ''callback_data'',
        emphasis btn))) menu_buttons =
       [[(PStr label_media, PStr ''media'', True), (PStr label_search, PStr ''search'', False)],
        [(PStr label_settings, PStr ''settings'', False)]]"
    by (simp add: menu_buttons_def dict_get_def emphasis_def)
  show ?thesis
    unfolding Let_def ch_def[symmetric] using run skip send rows by simp
qed

theorem handle_command_menu_witness:
  "eq_str (dict_get [(''action'', PStr ''send_feishu_menu''), (''channel'', PStr ''''),
                     (''user'', PStr ''u1'')] ''action'') ''send_feishu_menu'' \<and>
   cached_valid (world [1000] granted accepted) holding \<and>
   sent (snd (handle_command (world [1000] granted accepted) holding
     [(''action'', PStr ''send_feishu_menu''), (''channel'', PStr ''''),
      (''user'', PStr ''u1'')])) =
     [message_request holding (PStr ''tok123'') (PStr ''u1'')
        (spec_card menu_title menu_text menu_buttons)] \<and>
   eq_str (dict_get [(''action'', PStr ''send_feishu_menu'')] ''action'') ''send_feishu_menu'' \<and>
   handle_command (world [1000] granted accepted) holding
     [(''action'', PStr ''send_feishu_menu'')] = (Inr (), holding)"
proof -
  let ?e = "world [1000] granted accepted"
  let ?ev1 = "[(''action'', PStr ''send_feishu_menu''), (''channel'', PStr ''''),
      (''user'', PStr ''u1'')]"
  let ?ev2 = "[(''action'', PStr ''send_feishu_menu'')]"
  have h1: "eq_str (dict_get ?ev1 ''action'') ''send_feishu_menu''"
    and h2: "eq_str (dict_get ?ev2 ''action'') ''send_feishu_menu''"
    and h3: "cached_valid ?e holding"
    and h4: "sent holding = []" "access_token holding = PStr ''tok123''"
    and h5: "dict_get ?ev1 ''channel'' = PStr ''''" "dict_get ?ev1 ''user'' = PStr ''u1''"
      "dict_get ?ev2 ''channel'' = PNone" "dict_get ?ev2 ''user'' = PNone"
    by (simp_all add: model_defs)
  show ?thesis
    using h1 h2 h3 h4 handle_command_menu[OF h1, of ?e holding]
      handle_command_menu[OF h2, of ?e holding]
    unfolding Let_def h5 by auto
qed

section \<open>Concurrent and successive callers\<close>






end
